theory Spec2Isabelle
  imports Complex_Main
begin

section \<open>The unit estimator of oildrop.py\<close>

text \<open>
  The function \<^verbatim>\<open>find_charge_unit\<close> of \<^verbatim>\<open>src/oildrop.py\<close> (lines 51 to 72) is
  embedded here. Python floats are modelled as exact reals: every arithmetic operation
  is the exact one, and the two rounding functions of Python round half to even.
  The source has no \<^verbatim>\<open>raise\<close> statement and no grid argument; the grid is the
  constant \<^verbatim>\<open>np.arange(0.5, 3.0, 0.1)\<close>.
\<close>

subsection \<open>Python and numpy primitives\<close>

text \<open>\<^verbatim>\<open>round(x)\<close>: the nearest integer, a tie going to the even neighbour.\<close>

definition py_round :: "real \<Rightarrow> int" where
  "py_round x =
     (let f = \<lfloor>x\<rfloor>; r = x - of_int f
      in if r < 1 / 2 then f
         else if 1 / 2 < r then f + 1
         else if even f then f else f + 1)"

text \<open>\<^verbatim>\<open>round(x, n)\<close>: \<open>x\<close> rounded to \<open>n\<close> decimal places, half to even.\<close>

definition py_round_n :: "real \<Rightarrow> nat \<Rightarrow> real" where
  "py_round_n x n = of_int (py_round (x * 10 ^ n)) / 10 ^ n"

text \<open>
  \<^verbatim>\<open>np.arange(start, stop, step)\<close> for \<open>step \<noteq> 0\<close>: the
  \<open>\<lceil>(stop - start) / step\<rceil>\<close> values \<open>start + i * step\<close>, none when that
  number is not positive. The end point \<open>stop\<close> is excluded.
\<close>

definition arange :: "real \<Rightarrow> real \<Rightarrow> real \<Rightarrow> real list" where
  "arange start stop step =
     map (\<lambda>i. start + real i * step) [0..<nat \<lceil>(stop - start) / step\<rceil>]"

subsection \<open>The estimator\<close>

text \<open>
  The error taxonomy the estimator is specified with. No statement of the source
  raises, so no function below produces \<open>Inl\<close>.
\<close>

datatype estimator_error = InsufficientDataError | InvalidRangeError

text \<open>Line 54: \<^verbatim>\<open>[round(d, 1) for d in differences if d > 0.1]\<close>.\<close>

definition non_zero_diffs :: "real list \<Rightarrow> real list" where
  "non_zero_diffs differences =
     map (\<lambda>d. py_round_n d 1) (filter (\<lambda>d. d > 1 / 10) differences)"

text \<open>
  Lines 62 to 66, the inner loop: \<open>error\<close> is the accumulator, started at 0 by
  line 61.
\<close>

fun error_loop :: "real \<Rightarrow> real list \<Rightarrow> real \<Rightarrow> real" where
  "error_loop test_unit [] error = error"
| "error_loop test_unit (diff # nz_diffs) error =
     (let ratio = diff / test_unit;
          closest_int = py_round ratio
      in error_loop test_unit nz_diffs (error + \<bar>ratio - of_int closest_int\<bar>))"

text \<open>
  \<^verbatim>\<open>error < min_error\<close> of line 68, where \<open>min_error\<close> starts as
  \<^verbatim>\<open>float("inf")\<close>, modelled by \<open>None\<close>.
\<close>

fun less_min_error :: "real \<Rightarrow> real option \<Rightarrow> bool" where
  "less_min_error error None = True"
| "less_min_error error (Some m) = (error < m)"

text \<open>
  Lines 60 to 70, the outer loop over the candidates, with the state
  \<open>(best_unit, min_error)\<close>.
\<close>

fun unit_loop :: "real list \<Rightarrow> real list \<Rightarrow> real \<times> real option \<Rightarrow> real \<times> real option" where
  "unit_loop [] nz_diffs (best_unit, min_error) = (best_unit, min_error)"
| "unit_loop (test_unit # rest) nz_diffs (best_unit, min_error) =
     (let error = error_loop test_unit nz_diffs 0
      in if less_min_error error min_error
         then unit_loop rest nz_diffs (test_unit, Some error)
         else unit_loop rest nz_diffs (best_unit, min_error))"

text \<open>Lines 57 to 72 on a given grid of candidates: the value of \<open>best_unit\<close> returned.\<close>

definition grid_search :: "real list \<Rightarrow> real list \<Rightarrow> real" where
  "grid_search candidates nz_diffs =
     py_round_n (fst (unit_loop candidates nz_diffs (0, None))) 1"

definition find_charge_unit :: "real list \<Rightarrow> estimator_error + real" where
  "find_charge_unit differences =
     Inr (grid_search (arange (1 / 2) 3 (1 / 10)) (non_zero_diffs differences))"



subsection \<open>The caller's view: list objects in a heap\<close>

text \<open>
  Python passes \<open>differences\<close> by reference. A heap is the list of the list objects
  alive, a reference is an index into it, and allocating a list appends it. The only
  list the function builds is the comprehension of line 54, a new object; every later
  statement reads that object and assigns to local scalars. The caller passes a
  reference to a live object, \<open>differences < length h\<close>.
\<close>

type_synonym heap = "real list list"

definition find_charge_unit_heap :: "heap \<Rightarrow> nat \<Rightarrow> (estimator_error + real) \<times> heap" where
  "find_charge_unit_heap h differences =
     (let non_zero_diffs_ref = length h;
          h' = h @ [map (\<lambda>d. py_round_n d 1) (filter (\<lambda>d. d > 1 / 10) (h ! differences))];
          best_unit = grid_search (arange (1 / 2) 3 (1 / 10)) (h' ! non_zero_diffs_ref)
      in (Inr best_unit, h'))"

subsection \<open>The data the script feeds the estimator\<close>


section \<open>Properties of the loops\<close>








lemma grid_point_tenths: "1 / 2 + real i * (1 / 10) = of_int (5 + int i) / 10"
  by simp



section \<open>The default grid\<close>







lemma default_grid_list:
  "arange (1 / 2) 3 (1 / 10) =
     [1 / 2, 6 / 10, 7 / 10, 8 / 10, 9 / 10, 1, 11 / 10, 12 / 10, 13 / 10, 14 / 10,
      15 / 10, 16 / 10, 17 / 10, 18 / 10, 19 / 10, 2, 21 / 10, 22 / 10, 23 / 10, 24 / 10,
      25 / 10, 26 / 10, 27 / 10, 28 / 10, 29 / 10]"
  by (simp add: arange_def upt_rec [of _ "numeral _"])


lemma grid_search_no_diffs: "grid_search (arange (1 / 2) 3 (1 / 10)) [] = 1 / 2"
  by (simp add: grid_search_def default_grid_list py_round_n_def py_round_def)

section \<open>Differences that are exact multiples of a unit\<close>






section \<open>The claims\<close>

subsection \<open>C1: the returned candidate minimises the fit score\<close>




subsection \<open>C2: differences that are exact multiples of a unit\<close>




subsection \<open>C3: the scenario 1.2, 2.4, 3.6, 4.8\<close>





subsection \<open>C4: no usable difference\<close>

text \<open>
  C4, as amended. For every input that is empty or whose values are all at most 0.1, no
  difference is retained, no error is raised, and the estimator returns 0.5, the first
  candidate of the grid.
\<close>

theorem no_usable_difference_returns_first_candidate:
  assumes "\<forall>d\<in>set ds. d \<le> 1 / 10"
  shows "non_zero_diffs ds = [] \<and> find_charge_unit ds = Inr (1 / 2)"
proof -
  from assms have "filter (\<lambda>d. d > 1 / 10) ds = []"
    by (simp add: filter_empty_conv not_less)
  then have empty: "non_zero_diffs ds = []" by (simp add: non_zero_diffs_def)
  then show ?thesis by (simp add: find_charge_unit_def grid_search_no_diffs)
qed

text \<open>C4, witness: the differences 0, 0.05 and 0.1.\<close>

theorem no_usable_difference_returns_first_candidate_witness:
  "(0 :: real) \<le> 1 / 10 \<and> (1 / 20 :: real) \<le> 1 / 10 \<and> (1 / 10 :: real) \<le> 1 / 10 \<and>
   non_zero_diffs [0, 1 / 20, 1 / 10] = [] \<and>
   find_charge_unit [0, 1 / 20, 1 / 10] = Inr (1 / 2)"
  using no_usable_difference_returns_first_candidate [of "[0, 1 / 20, 1 / 10]"]
  by simp

text \<open>
  C4 as stated fails: on the empty input, and on the input 0, 0.05 whose values all lie
  below 0.1, the estimator returns the value 0.5 and raises no InsufficientDataError.
\<close>

theorem empty_input_counterexample:
  "find_charge_unit [] = Inr (1 / 2) \<and>
   find_charge_unit [] \<noteq> Inl InsufficientDataError \<and>
   find_charge_unit [0, 1 / 20] = Inr (1 / 2) \<and>
   find_charge_unit [0, 1 / 20] \<noteq> Inl InsufficientDataError"
  by (simp add: find_charge_unit_def non_zero_diffs_def grid_search_no_diffs)

subsection \<open>C5: the result is a grid point\<close>


subsection \<open>C6: the near-zero filter\<close>

text \<open>
  C6, as amended. The filter of line 54 discards exactly the differences that are at most
  0.1, the value 0.1 included, wherever they stand in the input: removing such a
  difference changes neither the retained list nor the estimate. Every difference
  strictly greater than 0.1 is retained, as its rounding to one decimal place.
\<close>

theorem filter_discards_up_to_threshold:
  "(d \<le> 1 / 10 \<longrightarrow>
      non_zero_diffs (xs @ d # ys) = non_zero_diffs (xs @ ys) \<and>
      find_charge_unit (xs @ d # ys) = find_charge_unit (xs @ ys)) \<and>
   (1 / 10 < d \<longrightarrow>
      non_zero_diffs (xs @ d # ys) = non_zero_diffs xs @ py_round_n d 1 # non_zero_diffs ys)"
  by (simp add: non_zero_diffs_def find_charge_unit_def)

text \<open>
  C6, witness: in the input 1.2, 0.1 the difference 0.1 is discarded, and in the input
  1.2, 0.34 the difference 0.34 is retained as 0.3.
\<close>

theorem filter_discards_up_to_threshold_witness:
  "(1 / 10 :: real) \<le> 1 / 10 \<and>
   non_zero_diffs ([12 / 10] @ 1 / 10 # []) = non_zero_diffs ([12 / 10] @ []) \<and>
   find_charge_unit ([12 / 10] @ 1 / 10 # []) = find_charge_unit ([12 / 10] @ []) \<and>
   (1 / 10 :: real) < 34 / 100 \<and>
   non_zero_diffs ([12 / 10] @ 34 / 100 # []) = [12 / 10, 3 / 10]"
  using filter_discards_up_to_threshold [of "1 / 10" "[12 / 10]" "[]"]
    filter_discards_up_to_threshold [of "34 / 100" "[12 / 10]" "[]"]
  by (simp add: non_zero_diffs_def py_round_n_def py_round_def Let_def)

text \<open>
  C6 as stated fails: a difference exactly equal to 0.1 is discarded. On the input 0.1
  nothing is retained and the estimator returns 0.5, as on the empty input; had 0.1
  taken part in the fit, the loop would have returned 2.9.
\<close>

theorem threshold_value_counterexample:
  "non_zero_diffs [1 / 10] = [] \<and>
   find_charge_unit [1 / 10] = Inr (1 / 2) \<and>
   grid_search (arange (1 / 2) 3 (1 / 10)) [1 / 10] = 29 / 10"
  by (simp add: find_charge_unit_def grid_search_def non_zero_diffs_def default_grid_list
      py_round_n_def py_round_def Let_def)

subsection \<open>C7: a malformed grid\<close>




subsection \<open>C8: the input list is not mutated\<close>

text \<open>
  C8. After the call, the list object the caller passed holds the elements it held
  before; so does every other object of the heap, the one new object being the local
  list of line 54. The value returned is that of \<open>find_charge_unit\<close> on the input.
\<close>

theorem find_charge_unit_heap_frame:
  assumes "differences < length h"
  shows "snd (find_charge_unit_heap h differences) ! differences = h ! differences \<and>
     take (length h) (snd (find_charge_unit_heap h differences)) = h \<and>
     fst (find_charge_unit_heap h differences) = find_charge_unit (h ! differences)"
  using assms
  by (simp add: find_charge_unit_heap_def find_charge_unit_def non_zero_diffs_def Let_def
      nth_append)

text \<open>C8, witness: a heap with two lists, the estimator called on the first.\<close>

theorem find_charge_unit_heap_frame_witness:
  "(0::nat) < length [[12 / 10, 1 / 20, 24 / 10], [7 :: real]] \<and>
   snd (find_charge_unit_heap [[12 / 10, 1 / 20, 24 / 10], [7]] 0) ! 0
     = [12 / 10, 1 / 20, 24 / 10] \<and>
   take 2 (snd (find_charge_unit_heap [[12 / 10, 1 / 20, 24 / 10], [7]] 0))
     = [[12 / 10, 1 / 20, 24 / 10], [7]]"
  using find_charge_unit_heap_frame [of 0 "[[12 / 10, 1 / 20, 24 / 10], [7]]"]
  by (simp add: numeral_2_eq_2)

subsection \<open>C9: the estimate depends on the rounded retained differences only\<close>



subsection \<open>C10: the range of the estimate\<close>


end
